theory Spec2Isabelle
  imports Main "HOL-Library.Sublist"
begin

section \<open>Python values: text, bytes and JSON data\<close>

text \<open>
  A Python \<open>str\<close> is a sequence of Unicode code points, a \<open>bytes\<close> object a sequence
  of 8-bit characters. String literals of the source are written \<open>str ''...''\<close>.
\<close>

type_synonym pystr = "nat list"
type_synonym bytes = "string"

definition str :: "string \<Rightarrow> pystr" where
  "str s = map of_char s"

text \<open>
  The values that travel through \<open>server.py\<close>: what \<open>json.loads\<close> returns and what the
  tool surface receives as \<open>args\<close> and \<open>kwargs\<close>. A \<open>dict\<close> is an association list in
  insertion order. Floating-point numbers are kept abstract (type \<open>'f\<close>).
\<close>

datatype 'f json =
    JNull
  | JBool bool
  | JInt int
  | JFloat 'f
  | JStr pystr
  | JArr "'f json list"
  | JObj "(pystr \<times> 'f json) list"

datatype pytype = TNone | TBool | TInt | TFloat | TStr | TList | TDict

text \<open>Exceptions raised inside the standard library, with what they were raised about.\<close>

datatype lib_exc =
    OSError nat
  | UnicodeDecodeError bytes
  | JSONDecodeError pystr
  | KeyError pystr
  | TypeError pytype
  | AttributeError

text \<open>
  Exceptions as the program sees them: the two it raises itself, with the message given in
  the source, and those of the library.
\<close>

datatype exc =
    ConnectionError
  | Exception pystr
  | Lib lib_exc

text \<open>
  What the standard library contributes and the source does not fix: the JSON text of a
  float (\<open>float.__repr__\<close>, or \<open>NaN\<close>, \<open>Infinity\<close>, \<open>-Infinity\<close>), the float denoted by
  such a text, and the wording of \<open>str(e)\<close> for a library exception.
\<close>

record 'f pylib =
  float_repr :: "'f \<Rightarrow> pystr"
  float_of :: "pystr \<Rightarrow> 'f"
  exc_text :: "lib_exc \<Rightarrow> pystr"

definition str_exc :: "'f pylib \<Rightarrow> exc \<Rightarrow> pystr" where
  "str_exc L e =
     (case e of
        ConnectionError \<Rightarrow>
          str ''Could not connect to GIMP. Ensure the MCP Server plugin is running.''
      | Exception m \<Rightarrow> m
      | Lib x \<Rightarrow> exc_text L x)"

text \<open>\<open>sub in s\<close> on strings: \<open>sub\<close> occurs in \<open>s\<close> as a contiguous run.\<close>

fun contains :: "'a list \<Rightarrow> 'a list \<Rightarrow> bool" where
  "contains sub [] = (sub = [])"
| "contains sub (x # xs) = (prefix sub (x # xs) \<or> contains sub xs)"

text \<open>\<open>obj[key]\<close> with a string key.\<close>

fun lookup :: "(pystr \<times> 'v) list \<Rightarrow> pystr \<Rightarrow> 'v option" where
  "lookup [] k = None"
| "lookup ((k', v) # kvs) k = (if k' = k then Some v else lookup kvs k)"

fun subscript :: "'f json \<Rightarrow> pystr \<Rightarrow> exc + 'f json" where
  "subscript (JObj kvs) k =
     (case lookup kvs k of None \<Rightarrow> Inl (Lib (KeyError k)) | Some v \<Rightarrow> Inr v)"
| "subscript JNull k = Inl (Lib (TypeError TNone))"
| "subscript (JBool b) k = Inl (Lib (TypeError TBool))"
| "subscript (JInt i) k = Inl (Lib (TypeError TInt))"
| "subscript (JFloat f) k = Inl (Lib (TypeError TFloat))"
| "subscript (JStr s) k = Inl (Lib (TypeError TStr))"
| "subscript (JArr xs) k = Inl (Lib (TypeError TList))"

section \<open>UTF-8\<close>

definition byte :: "nat \<Rightarrow> char" where
  "byte n = char_of n"

definition cont :: "nat \<Rightarrow> bool" where
  "cont b = (0x80 \<le> b \<and> b < 0xC0)"

text \<open>
  \<open>b.decode('utf-8')\<close> on the byte values: overlong forms, surrogates, code points above
  \<open>0x10FFFF\<close> and truncated sequences are errors.
\<close>

fun utf8_dec :: "nat list \<Rightarrow> pystr option" where
  "utf8_dec [] = Some []"
| "utf8_dec (b0 # bs) =
     (if b0 < 0x80 then map_option ((#) b0) (utf8_dec bs)
      else if 0xC2 \<le> b0 \<and> b0 < 0xE0 then
        (case bs of
           b1 # r \<Rightarrow>
             if cont b1
             then map_option ((#) ((b0 - 0xC0) * 64 + (b1 - 0x80))) (utf8_dec r)
             else None
         | _ \<Rightarrow> None)
      else if 0xE0 \<le> b0 \<and> b0 < 0xF0 then
        (case bs of
           b1 # b2 # r \<Rightarrow>
             (let c = (b0 - 0xE0) * 4096 + (b1 - 0x80) * 64 + (b2 - 0x80)
              in if cont b1 \<and> cont b2 \<and> 0x800 \<le> c \<and> \<not> (0xD800 \<le> c \<and> c \<le> 0xDFFF)
                 then map_option ((#) c) (utf8_dec r)
                 else None)
         | _ \<Rightarrow> None)
      else if 0xF0 \<le> b0 \<and> b0 < 0xF5 then
        (case bs of
           b1 # b2 # b3 # r \<Rightarrow>
             (let c = (b0 - 0xF0) * 262144 + (b1 - 0x80) * 4096 + (b2 - 0x80) * 64 + (b3 - 0x80)
              in if cont b1 \<and> cont b2 \<and> cont b3 \<and> 0x10000 \<le> c \<and> c < 0x110000
                 then map_option ((#) c) (utf8_dec r)
                 else None)
         | _ \<Rightarrow> None)
      else None)"

definition utf8_decode :: "bytes \<Rightarrow> pystr option" where
  "utf8_decode b = utf8_dec (map of_char b)"

section \<open>\<open>json.dumps\<close> with its default options\<close>

definition hex_digit :: "nat \<Rightarrow> nat" where
  "hex_digit d = (if d < 10 then 48 + d else 87 + d)"

definition hex4 :: "nat \<Rightarrow> pystr" where
  "hex4 n = [hex_digit (n div 4096 mod 16), hex_digit (n div 256 mod 16),
             hex_digit (n div 16 mod 16), hex_digit (n mod 16)]"

text \<open>
  \<open>ensure_ascii\<close>: the quote, the backslash and the control characters with a short form
  are escaped by a backslash; printable ASCII stays; everything else becomes \<open>\uXXXX\<close>, a
  code point above \<open>0xFFFF\<close> as a surrogate pair.
\<close>

definition esc_char :: "nat \<Rightarrow> pystr" where
  "esc_char c =
     (if c = 34 then [92, 34]
      else if c = 92 then [92, 92]
      else if c = 10 then [92, 110]
      else if c = 13 then [92, 114]
      else if c = 9 then [92, 116]
      else if c = 8 then [92, 98]
      else if c = 12 then [92, 102]
      else if 32 \<le> c \<and> c \<le> 126 then [c]
      else if c < 0x10000 then 92 # 117 # hex4 c
      else 92 # 117 # hex4 (0xD800 + (c - 0x10000) div 1024 mod 1024)
           @ 92 # 117 # hex4 (0xDC00 + (c - 0x10000) mod 1024))"

definition encode_str :: "pystr \<Rightarrow> pystr" where
  "encode_str s = 34 # concat (map esc_char s) @ [34]"

fun dec_nat :: "nat \<Rightarrow> pystr" where
  "dec_nat n = (if n < 10 then [48 + n] else dec_nat (n div 10) @ [48 + n mod 10])"

definition dec_int :: "int \<Rightarrow> pystr" where
  "dec_int i = (if i < 0 then 45 # dec_nat (nat (- i)) else dec_nat (nat i))"

fun join :: "pystr \<Rightarrow> pystr list \<Rightarrow> pystr" where
  "join sep [] = []"
| "join sep [x] = x"
| "join sep (x # y # ys) = x @ sep @ join sep (y # ys)"

fun dumps :: "'f pylib \<Rightarrow> 'f json \<Rightarrow> pystr" where
  "dumps L JNull = str ''null''"
| "dumps L (JBool b) = (if b then str ''true'' else str ''false'')"
| "dumps L (JInt i) = dec_int i"
| "dumps L (JFloat f) = float_repr L f"
| "dumps L (JStr s) = encode_str s"
| "dumps L (JArr xs) = 91 # join (str '', '') (map (dumps L) xs) @ [93]"
| "dumps L (JObj kvs) =
     123 # join (str '', '')
             (map (\<lambda>kv. encode_str (fst kv) @ str '': '' @ dumps L (snd kv)) kvs) @ [125]"

section \<open>\<open>json.loads\<close>\<close>

definition is_ws :: "nat \<Rightarrow> bool" where
  "is_ws c = (c = 32 \<or> c = 9 \<or> c = 10 \<or> c = 13)"

definition skip_ws :: "pystr \<Rightarrow> pystr" where
  "skip_ws s = dropWhile is_ws s"

definition is_digit :: "nat \<Rightarrow> bool" where
  "is_digit c = (48 \<le> c \<and> c \<le> 57)"

definition hexval :: "nat \<Rightarrow> nat option" where
  "hexval c =
     (if 48 \<le> c \<and> c \<le> 57 then Some (c - 48)
      else if 97 \<le> c \<and> c \<le> 102 then Some (c - 87)
      else if 65 \<le> c \<and> c \<le> 70 then Some (c - 55)
      else None)"

text \<open>The four hexadecimal digits of a \<open>\uXXXX\<close> escape.\<close>

definition scan_u :: "nat \<Rightarrow> nat \<Rightarrow> nat \<Rightarrow> nat \<Rightarrow> nat option" where
  "scan_u a b c d =
     (case (hexval a, hexval b, hexval c, hexval d) of
        (Some x, Some y, Some z, Some w) \<Rightarrow> Some (x * 4096 + y * 256 + z * 16 + w)
      | _ \<Rightarrow> None)"

definition unescape :: "nat \<Rightarrow> nat option" where
  "unescape e =
     (if e = 34 then Some 34
      else if e = 92 then Some 92
      else if e = 47 then Some 47
      else if e = 98 then Some 8
      else if e = 102 then Some 12
      else if e = 110 then Some 10
      else if e = 114 then Some 13
      else if e = 116 then Some 9
      else None)"

definition cons_res :: "nat \<Rightarrow> (pystr \<times> pystr) option \<Rightarrow> (pystr \<times> pystr) option" where
  "cons_res c r = map_option (\<lambda>p. (c # fst p, snd p)) r"

text \<open>
  \<open>scanstring\<close> (strict): the text after the opening quote, up to the closing one. A raw
  control character, an unknown escape, bad hexadecimal digits and a missing closing quote
  are errors. A high surrogate escape followed by a low surrogate escape is one code point.
\<close>

fun scanstring :: "pystr \<Rightarrow> (pystr \<times> pystr) option" where
  "scanstring [] = None"
| "scanstring (c # cs) =
     (if c = 34 then Some ([], cs)
      else if c < 32 then None
      else if c \<noteq> 92 then cons_res c (scanstring cs)
      else
        (case cs of
           [] \<Rightarrow> None
         | e # r \<Rightarrow>
             if e \<noteq> 117 then
               (case unescape e of None \<Rightarrow> None | Some x \<Rightarrow> cons_res x (scanstring r))
             else
               (case r of
                  a # b # c1 # d # r1 \<Rightarrow>
                    (case scan_u a b c1 d of
                       None \<Rightarrow> None
                     | Some u \<Rightarrow>
                         if 0xD800 \<le> u \<and> u \<le> 0xDBFF then
                           (case r1 of
                              bs # lu # a2 # b2 # c2 # d2 # r2 \<Rightarrow>
                                if bs = 92 \<and> lu = 117 then
                                  (case scan_u a2 b2 c2 d2 of
                                     None \<Rightarrow> None
                                   | Some u2 \<Rightarrow>
                                       if 0xDC00 \<le> u2 \<and> u2 \<le> 0xDFFF
                                       then cons_res
                                              (0x10000 + (u - 0xD800) * 1024 + (u2 - 0xDC00))
                                              (scanstring r2)
                                       else cons_res u (scanstring r1))
                                else cons_res u (scanstring r1)
                            | _ \<Rightarrow> cons_res u (scanstring r1))
                         else cons_res u (scanstring r1))
                | _ \<Rightarrow> None)))"

text \<open>
  The number pattern \<open>(-?(?:0|[1-9][0-9]*))(\.[0-9]+)?([eE][-+]?[0-9]+)?\<close>: the integer
  part, the fraction and the exponent that match at the start of the text, and the rest.
\<close>

definition match_int :: "pystr \<Rightarrow> (pystr \<times> pystr) option" where
  "match_int s =
     (let sign = (case s of c # _ \<Rightarrow> if c = 45 then [45] else [] | [] \<Rightarrow> []);
          s1 = drop (length sign) s
      in case s1 of
           [] \<Rightarrow> None
         | c # cs \<Rightarrow>
             if c = 48 then Some (sign @ [48], cs)
             else if is_digit c then Some (sign @ c # takeWhile is_digit cs, dropWhile is_digit cs)
             else None)"

definition match_frac :: "pystr \<Rightarrow> pystr \<times> pystr" where
  "match_frac s =
     (case s of
        c # d # r \<Rightarrow>
          if c = 46 \<and> is_digit d
          then (c # d # takeWhile is_digit r, dropWhile is_digit r)
          else ([], s)
      | _ \<Rightarrow> ([], s))"

definition match_exp :: "pystr \<Rightarrow> pystr \<times> pystr" where
  "match_exp s =
     (case s of
        e # r \<Rightarrow>
          if e = 101 \<or> e = 69 then
            (let sign = (case r of c # _ \<Rightarrow> if c = 43 \<or> c = 45 then [c] else [] | [] \<Rightarrow> []);
                 r1 = drop (length sign) r
             in case r1 of
                  d # r2 \<Rightarrow>
                    if is_digit d
                    then (e # sign @ d # takeWhile is_digit r2, dropWhile is_digit r2)
                    else ([], s)
                | [] \<Rightarrow> ([], s))
          else ([], s)
      | [] \<Rightarrow> ([], s))"

definition nat_of_digits :: "pystr \<Rightarrow> nat" where
  "nat_of_digits ds = foldl (\<lambda>n d. 10 * n + (d - 48)) 0 ds"

definition int_of_text :: "pystr \<Rightarrow> int" where
  "int_of_text t =
     (case t of
        c # ds \<Rightarrow> if c = 45 then - int (nat_of_digits ds) else int (nat_of_digits t)
      | [] \<Rightarrow> 0)"

definition match_number :: "'f pylib \<Rightarrow> pystr \<Rightarrow> ('f json \<times> pystr) option" where
  "match_number L s =
     (case match_int s of
        None \<Rightarrow> None
      | Some (ip, s1) \<Rightarrow>
          (let (fr, s2) = match_frac s1;
               (ex, s3) = match_exp s2
           in if fr = [] \<and> ex = []
              then Some (JInt (int_of_text ip), s3)
              else Some (JFloat (float_of L (ip @ fr @ ex)), s3)))"

text \<open>Storing a key in a \<open>dict\<close>: an existing key keeps its place and takes the new value.\<close>

fun upd :: "(pystr \<times> 'v) list \<Rightarrow> pystr \<Rightarrow> 'v \<Rightarrow> (pystr \<times> 'v) list" where
  "upd [] k v = [(k, v)]"
| "upd ((k', v') # kvs) k v = (if k' = k then (k, v) # kvs else (k', v') # upd kvs k v)"

text \<open>
  The scanner. Its first argument after \<open>L\<close> bounds the number of nested and successive
  calls; \<open>loads\<close> starts it with more than the length of the text, and every call
  consumes a character.
\<close>

fun scan_once :: "'f pylib \<Rightarrow> nat \<Rightarrow> pystr \<Rightarrow> ('f json \<times> pystr) option"
  and parse_array :: "'f pylib \<Rightarrow> nat \<Rightarrow> pystr \<Rightarrow> 'f json list \<Rightarrow> ('f json \<times> pystr) option"
  and parse_object ::
    "'f pylib \<Rightarrow> nat \<Rightarrow> pystr \<Rightarrow> (pystr \<times> 'f json) list \<Rightarrow> ('f json \<times> pystr) option"
where
  "scan_once L 0 s = None"
| "scan_once L (Suc n) s =
     (case s of
        [] \<Rightarrow> None
      | c # cs \<Rightarrow>
          if c = 34 then map_option (\<lambda>p. (JStr (fst p), snd p)) (scanstring cs)
          else if c = 123 then
            (case skip_ws cs of
               [] \<Rightarrow> None
             | d # r \<Rightarrow> if d = 125 then Some (JObj [], r) else parse_object L n (d # r) [])
          else if c = 91 then
            (case skip_ws cs of
               [] \<Rightarrow> None
             | d # r \<Rightarrow> if d = 93 then Some (JArr [], r) else parse_array L n (d # r) [])
          else if prefix (str ''null'') s then Some (JNull, drop 4 s)
          else if prefix (str ''true'') s then Some (JBool True, drop 4 s)
          else if prefix (str ''false'') s then Some (JBool False, drop 5 s)
          else if prefix (str ''NaN'') s then Some (JFloat (float_of L (str ''NaN'')), drop 3 s)
          else if prefix (str ''Infinity'') s
          then Some (JFloat (float_of L (str ''Infinity'')), drop 8 s)
          else if prefix (str ''-Infinity'') s
          then Some (JFloat (float_of L (str ''-Infinity'')), drop 9 s)
          else match_number L s)"
| "parse_array L 0 s acc = None"
| "parse_array L (Suc n) s acc =
     (case scan_once L n s of
        None \<Rightarrow> None
      | Some (v, r) \<Rightarrow>
          (case skip_ws r of
             [] \<Rightarrow> None
           | c # r1 \<Rightarrow>
               if c = 93 then Some (JArr (acc @ [v]), r1)
               else if c = 44 then parse_array L n (skip_ws r1) (acc @ [v])
               else None))"
| "parse_object L 0 s acc = None"
| "parse_object L (Suc n) s acc =
     (case s of
        [] \<Rightarrow> None
      | q # cs \<Rightarrow>
          if q \<noteq> 34 then None
          else
            (case scanstring cs of
               None \<Rightarrow> None
             | Some (k, r) \<Rightarrow>
                 (case skip_ws r of
                    [] \<Rightarrow> None
                  | c # r1 \<Rightarrow>
                      if c \<noteq> 58 then None
                      else
                        (case scan_once L n (skip_ws r1) of
                           None \<Rightarrow> None
                         | Some (v, r2) \<Rightarrow>
                             (case skip_ws r2 of
                                [] \<Rightarrow> None
                              | e # r3 \<Rightarrow>
                                  if e = 125 then Some (JObj (upd acc k v), r3)
                                  else if e = 44
                                  then parse_object L n (skip_ws r3) (upd acc k v)
                                  else None)))))"

text \<open>
  \<open>json.loads\<close> on a \<open>str\<close>: no byte order mark, one value between optional white space,
  nothing after it. \<open>None\<close> stands for \<open>JSONDecodeError\<close>.
\<close>

definition loads :: "'f pylib \<Rightarrow> pystr \<Rightarrow> 'f json option" where
  "loads L s =
     (if prefix [0xFEFF] s then None
      else
        (case scan_once L (Suc (length s)) (skip_ws s) of
           None \<Rightarrow> None
         | Some (v, r) \<Rightarrow> if skip_ws r = [] then Some v else None))"

section \<open>The socket and the remote plugin\<close>

text \<open>
  What the \<open>k\<close>-th call of \<open>socket.socket\<close> and the socket it returns will do: whether
  the creation, the \<open>connect\<close> and the \<open>sendall\<close> raise \<open>OSError\<close> (with which
  \<open>errno\<close>), and what \<open>recv\<close> finds.
\<close>

record peer =
  create_err :: "nat option"
  connect_err :: "nat option"
  sendall_err :: "nat option"
  recv_result :: "nat + bytes"

datatype socket = Socket (sock_id: nat) (is_connected: bool)

text \<open>The fields of a \<open>GimpConnection\<close>.\<close>

record gimp_connection =
  host :: pystr
  port :: nat
  sock :: "socket option"

text \<open>
  The state of a run: the remote side (\<open>peers\<close>, and how many sockets were asked for),
  the module's global \<open>_gimp_connection\<close>, and a trace: the \<open>sock.connect\<close> attempts, the
  \<open>send_command\<close> invocations, the payloads handed over by \<open>sendall\<close>, the replies
  decoded and the \<open>call_api\<close> invocations with their arguments.
\<close>

record 'f world =
  peers :: "nat \<Rightarrow> peer"
  created :: nat
  connect_attempts :: nat
  exchanges :: nat
  sent :: "bytes list"
  received :: "'f json list"
  api_calls :: "(pystr \<times> 'f json list \<times> (pystr \<times> 'f json) list) list"
  gimp_connection_global :: "gimp_connection option"

section \<open>\<open>GimpConnection\<close>\<close>

text \<open>
  \<open>connect\<close>: nothing to do when a handle is stored. Otherwise the new socket is assigned
  to \<open>self.sock\<close> first and connected second; any exception of the two steps is replaced
  by \<open>ConnectionError\<close>. The result is the exception raised, if any.
\<close>

definition connect ::
  "gimp_connection \<Rightarrow> 'f world \<Rightarrow> exc option \<times> gimp_connection \<times> 'f world" where
  "connect self w =
     (case sock self of
        Some s \<Rightarrow> (None, self, w)
      | None \<Rightarrow>
          (let k = created w;
               p = peers w k;
               w1 = w\<lparr>created := Suc k\<rparr>
           in case create_err p of
                Some e \<Rightarrow> (Some ConnectionError, self, w1)
              | None \<Rightarrow>
                  (let self1 = self\<lparr>sock := Some (Socket k False)\<rparr>;
                       w2 = w1\<lparr>connect_attempts := Suc (connect_attempts w1)\<rparr>
                   in case connect_err p of
                        Some e \<Rightarrow> (Some ConnectionError, self1, w2)
                      | None \<Rightarrow> (None, self1\<lparr>sock := Some (Socket k True)\<rparr>, w2))))"

text \<open>
  The body of the \<open>try\<close> in \<open>send_command\<close>: encode and send the command, receive at most
  1024 bytes, decode them. The text that \<open>json.dumps\<close> returns is ASCII, so its UTF-8
  encoding has one byte for each character. Sending on a socket that is not connected
  raises \<open>OSError\<close> (\<open>EPIPE\<close>).
\<close>

definition transfer ::
  "'f pylib \<Rightarrow> socket option \<Rightarrow> 'f json \<Rightarrow> 'f world \<Rightarrow> (exc + 'f json) \<times> 'f world" where
  "transfer L so command w =
     (case so of
        None \<Rightarrow> (Inl (Lib AttributeError), w)
      | Some s \<Rightarrow>
          (let data = map byte (dumps L command)
           in if \<not> is_connected s then (Inl (Lib (OSError 32)), w)
              else
                (let p = peers w (sock_id s)
                 in case sendall_err p of
                      Some e \<Rightarrow> (Inl (Lib (OSError e)), w)
                    | None \<Rightarrow>
                        (let w1 = w\<lparr>sent := sent w @ [data]\<rparr>
                         in case recv_result p of
                              Inl e \<Rightarrow> (Inl (Lib (OSError e)), w1)
                            | Inr b \<Rightarrow>
                                (let response = take 1024 b
                                 in case utf8_decode response of
                                      None \<Rightarrow> (Inl (Lib (UnicodeDecodeError response)), w1)
                                    | Some text \<Rightarrow>
                                        (case loads L text of
                                           None \<Rightarrow> (Inl (Lib (JSONDecodeError text)), w1)
                                         | Some v \<Rightarrow>
                                             (Inr v, w1\<lparr>received := received w1 @ [v]\<rparr>)))))))"

text \<open>
  \<open>send_command\<close>: \<open>connect\<close> is called outside the \<open>try\<close>, so its exception leaves the
  method as it is. Both the normal path and the handler of the \<open>try\<close> set \<open>self.sock\<close>
  to \<open>None\<close>; the handler raises \<open>Exception\<close> with the text of the cause. \<open>params\<close> is
  a mapping or \<open>None\<close>; \<open>params or {}\<close> replaces \<open>None\<close> and the empty mapping.
\<close>

definition send_command ::
  "'f pylib \<Rightarrow> gimp_connection \<Rightarrow> 'f world \<Rightarrow> pystr \<Rightarrow> (pystr \<times> 'f json) list option
     \<Rightarrow> (exc + 'f json) \<times> gimp_connection \<times> 'f world" where
  "send_command L self w command_type params =
     (let w0 = w\<lparr>exchanges := Suc (exchanges w)\<rparr>;
          (r, self1, w1) = (if sock self = None then connect self w0 else (None, self, w0))
      in case r of
           Some e \<Rightarrow> (Inl e, self1, w1)
         | None \<Rightarrow>
             (let command =
                    JObj [(str ''type'', JStr command_type),
                          (str ''params'',
                           JObj (case params of None \<Rightarrow> [] | Some p \<Rightarrow> if p = [] then [] else p))];
                  (res, w2) = transfer L (sock self1) command w1;
                  self2 = self1\<lparr>sock := None\<rparr>
              in case res of
                   Inr v \<Rightarrow> (Inr v, self2, w2)
                 | Inl e \<Rightarrow>
                     (Inl (Exception (str ''Error communicating with GIMP: '' @ str_exc L e)),
                      self2, w2)))"

section \<open>The tools\<close>

text \<open>\<open>GimpConnection()\<close> with the default host and port.\<close>

definition new_connection :: gimp_connection where
  "new_connection = \<lparr>host = str ''localhost'', port = 9877, sock = None\<rparr>"

text \<open>
  \<open>get_gimp_connection\<close>: the global is assigned before the first \<open>connect\<close>, whose
  exception propagates.
\<close>

definition get_gimp_connection :: "'f world \<Rightarrow> (exc + gimp_connection) \<times> 'f world" where
  "get_gimp_connection w =
     (case gimp_connection_global w of
        Some c \<Rightarrow> (Inr c, w)
      | None \<Rightarrow>
          (let (r, c1, w1) = connect new_connection w;
               w2 = w1\<lparr>gimp_connection_global := Some c1\<rparr>
           in case r of Some e \<Rightarrow> (Inl e, w2) | None \<Rightarrow> (Inr c1, w2)))"

text \<open>What \<open>call_api\<close> makes of a decoded reply (the \<open>if\<close> of its \<open>try\<close>).\<close>

definition result_text :: "'f pylib \<Rightarrow> 'f json \<Rightarrow> exc + pystr" where
  "result_text L result =
     (case subscript result (str ''status'') of
        Inl e \<Rightarrow> Inl e
      | Inr status \<Rightarrow>
          if status = JStr (str ''success'') then
            (case subscript result (str ''result'') of
               Inl e \<Rightarrow> Inl e
             | Inr v \<Rightarrow> Inr (dumps L v))
          else
            (case subscript result (str ''error'') of
               Inl e \<Rightarrow> Inl e
             | Inr v \<Rightarrow> Inr (str ''Error: '' @ dumps L v)))"

text \<open>The body of the \<open>try\<close> in \<open>call_api\<close>.\<close>

definition call_api_try ::
  "'f pylib \<Rightarrow> 'f world \<Rightarrow> pystr \<Rightarrow> 'f json list \<Rightarrow> (pystr \<times> 'f json) list
     \<Rightarrow> (exc + pystr) \<times> 'f world" where
  "call_api_try L w api_path args kwargs =
     (case get_gimp_connection w of
        (Inl e, w1) \<Rightarrow> (Inl e, w1)
      | (Inr conn, w1) \<Rightarrow>
          (let (res, conn1, w2) =
                 send_command L conn w1 (str ''call_api'')
                   (Some [(str ''api_path'', JStr api_path), (str ''args'', JArr args),
                          (str ''kwargs'', JObj kwargs)]);
               w3 = w2\<lparr>gimp_connection_global := Some conn1\<rparr>
           in case res of
                Inl e \<Rightarrow> (Inl e, w3)
              | Inr result \<Rightarrow> (result_text L result, w3)))"

definition call_api ::
  "'f pylib \<Rightarrow> 'f world \<Rightarrow> pystr \<Rightarrow> 'f json list \<Rightarrow> (pystr \<times> 'f json) list
     \<Rightarrow> pystr \<times> 'f world" where
  "call_api L w api_path args kwargs =
     (case call_api_try L (w\<lparr>api_calls := api_calls w @ [(api_path, args, kwargs)]\<rparr>)
             api_path args kwargs of
        (Inr s, w1) \<Rightarrow> (s, w1)
      | (Inl e, w1) \<Rightarrow> (str ''Error: '' @ str_exc L e, w1))"

definition get_images :: "'f pylib \<Rightarrow> 'f world \<Rightarrow> pystr \<times> 'f world" where
  "get_images L w = call_api L w (str ''Gimp.get_images'') [] []"

text \<open>
  The two operations below have no \<open>try\<close>: what \<open>json.loads\<close> and the subscripts raise
  leaves them (\<open>Inl\<close>). \<open>image_obj["id"]\<close> is evaluated before each call that takes it.
\<close>

definition get_image_info :: "'f pylib \<Rightarrow> 'f world \<Rightarrow> int \<Rightarrow> (exc + pystr) \<times> 'f world" where
  "get_image_info L w image_id =
     (let (image, w1) = call_api L w (str ''Gimp.Image.get_by_id'') [JInt image_id] []
      in if contains (str ''Error'') image then (Inr image, w1)
         else
           (case loads L image of
              None \<Rightarrow> (Inl (Lib (JSONDecodeError image)), w1)
            | Some image_obj \<Rightarrow>
                (case subscript image_obj (str ''id'') of
                   Inl e \<Rightarrow> (Inl e, w1)
                 | Inr i \<Rightarrow>
                     (let (width, w2) = call_api L w1 (str ''Gimp.Image.get_width'') [i] [];
                          (height, w3) = call_api L w2 (str ''Gimp.Image.get_height'') [i] [];
                          (layers, w4) = call_api L w3 (str ''Gimp.Image.get_layers'') [i] []
                      in (Inr (dumps L (JObj [(str ''width'', JStr width),
                                              (str ''height'', JStr height),
                                              (str ''layers'', JStr layers)])), w4)))))"

definition apply_gaussian_blur ::
  "'f pylib \<Rightarrow> 'f world \<Rightarrow> int \<Rightarrow> 'f \<Rightarrow> (exc + pystr) \<times> 'f world" where
  "apply_gaussian_blur L w image_id radius =
     (let (image, w1) = call_api L w (str ''Gimp.Image.get_by_id'') [JInt image_id] []
      in if contains (str ''Error'') image then (Inr image, w1)
         else
           (case loads L image of
              None \<Rightarrow> (Inl (Lib (JSONDecodeError image)), w1)
            | Some image_obj \<Rightarrow>
                (case subscript image_obj (str ''id'') of
                   Inl e \<Rightarrow> (Inl e, w1)
                 | Inr i \<Rightarrow>
                     (let (drawable, w2) =
                            call_api L w1 (str ''Gimp.Image.get_active_layer'') [i] []
                      in if contains (str ''Error'') drawable then (Inr drawable, w2)
                         else
                           (case loads L drawable of
                              None \<Rightarrow> (Inl (Lib (JSONDecodeError drawable)), w2)
                            | Some drawable_obj \<Rightarrow>
                                (case subscript drawable_obj (str ''id'') of
                                   Inl e \<Rightarrow> (Inl e, w2)
                                 | Inr d \<Rightarrow>
                                     (let (result, w3) =
                                            call_api L w2 (str ''Gimp.get_pdb.run_procedure'')
                                              [JStr (str ''plug-in-gauss''), i, d,
                                               JFloat radius, JFloat radius, JInt 0] []
                                      in if contains (str ''Error'') result then (Inr result, w3)
                                         else
                                           (let (flushed, w4) =
                                                  call_api L w3 (str ''Gimp.displays_flush'') [] []
                                            in (Inr (str ''Applied Gaussian blur successfully''),
                                                w4)))))))))"

section \<open>Remote sides and library parameters to run the model on\<close>

text \<open>
  A plugin that is not running (the connection is refused), one that answers with the
  given bytes, and the state of a process that has not called a tool yet.
\<close>

definition refused :: peer where
  "refused = \<lparr>create_err = None, connect_err = Some 111, sendall_err = None,
              recv_result = Inl 107\<rparr>"

definition answers :: "bytes \<Rightarrow> peer" where
  "answers b = \<lparr>create_err = None, connect_err = None, sendall_err = None,
                recv_result = Inr b\<rparr>"

definition start :: "(nat \<Rightarrow> peer) \<Rightarrow> 'f world" where
  "start ps = \<lparr>peers = ps, created = 0, connect_attempts = 0, exchanges = 0, sent = [],
               received = [], api_calls = [], gimp_connection_global = None\<rparr>"

text \<open>
  Library parameters for running the model: the floats are the whole numbers \<open>n.0\<close>, and
  every library exception has the same text.
\<close>

definition lib0 :: "int pylib" where
  "lib0 = \<lparr>float_repr = (\<lambda>x. dec_int x @ str ''.0''),
            float_of = (\<lambda>t. int_of_text (takeWhile (\<lambda>c. c \<noteq> 46) t)),
            exc_text = (\<lambda>x. str ''library error'')\<rparr>"

text \<open>A remote side that answers the \<open>k\<close>-th connection with the \<open>k\<close>-th of the given replies.\<close>

definition script :: "bytes list \<Rightarrow> nat \<Rightarrow> peer" where
  "script bs k = (if k < length bs then answers (bs ! k) else refused)"

section \<open>Notions used in the statements\<close>

text \<open>No handle is stored in the global connection, if there is one.\<close>

definition ready :: "'f world \<Rightarrow> bool" where
  "ready w = (case gimp_connection_global w of None \<Rightarrow> True | Some c \<Rightarrow> sock c = None)"

text \<open>
  The socket can be created and connected, takes the request, and the bytes that one
  \<open>recv(1024)\<close> returns decode to the value \<open>v\<close>.
\<close>

definition delivers :: "'f pylib \<Rightarrow> peer \<Rightarrow> 'f json \<Rightarrow> bool" where
  "delivers L p v =
     (create_err p = None \<and> connect_err p = None \<and> sendall_err p = None \<and>
      (case recv_result p of
         Inl e \<Rightarrow> False
       | Inr b \<Rightarrow>
           (case utf8_decode (take 1024 b) of
              None \<Rightarrow> False
            | Some t \<Rightarrow> loads L t = Some v)))"

text \<open>A reply with \<open>status\<close> \<open>"success"\<close> and the given \<open>result\<close>.\<close>

definition succeeds :: "'f json \<Rightarrow> 'f json \<Rightarrow> bool" where
  "succeeds reply payload =
     (subscript reply (str ''status'') = Inr (JStr (str ''success'')) \<and>
      subscript reply (str ''result'') = Inr payload)"

text \<open>The string \<open>call_api\<close> returns for an outcome of its \<open>try\<close>.\<close>

definition text_of :: "'f pylib \<Rightarrow> exc + pystr \<Rightarrow> pystr" where
  "text_of L r = (case r of Inr s \<Rightarrow> s | Inl e \<Rightarrow> str ''Error: '' @ str_exc L e)"

text \<open>
  The JSON text of a float starts as a number does, or is \<open>NaN\<close> or \<open>Infinity\<close>: with a
  digit, \<open>-\<close>, \<open>N\<close> or \<open>I\<close>.
\<close>

definition float_text_ok :: "'f pylib \<Rightarrow> bool" where
  "float_text_ok L =
     (\<forall>f. case float_repr L f of
             [] \<Rightarrow> False
           | c # _ \<Rightarrow> is_digit c \<or> c = 45 \<or> c = 78 \<or> c = 73)"

section \<open>Substrings\<close>

lemma prefix_contains: "prefix p s \<Longrightarrow> contains p s"
  by (cases s) auto

lemma contains_iff: "contains sub s \<longleftrightarrow> (\<exists>a b. s = a @ sub @ b)"
proof (induction s)
  case Nil
  then show ?case by auto
next
  case (Cons x xs)
  show ?case
  proof
    assume "contains sub (x # xs)"
    then consider "prefix sub (x # xs)" | "contains sub xs" by auto
    then show "\<exists>a b. x # xs = a @ sub @ b"
    proof cases
      case 1
      then obtain b where "x # xs = sub @ b" by (auto simp: prefix_def)
      then have "x # xs = [] @ sub @ b" by simp
      then show ?thesis by blast
    next
      case 2
      with Cons obtain a b where "xs = a @ sub @ b" by blast
      then have "x # xs = (x # a) @ sub @ b" by simp
      then show ?thesis by blast
    qed
  next
    assume "\<exists>a b. x # xs = a @ sub @ b"
    then obtain a b where ab: "x # xs = a @ sub @ b" by blast
    show "contains sub (x # xs)"
    proof (cases a)
      case Nil
      with ab have "prefix sub (x # xs)" by (simp add: prefix_def)
      then show ?thesis by simp
    next
      case (Cons y ys)
      with ab have "xs = ys @ sub @ b" by simp
      with Cons.IH have "contains sub xs" by blast
      then show ?thesis by simp
    qed
  qed
qed

section \<open>The trace of \<open>call_api\<close> invocations\<close>

lemma connect_api_calls: "connect c w = (r, c', w') \<Longrightarrow> api_calls w' = api_calls w"
  by (auto simp: connect_def Let_def split: option.splits)

lemma transfer_api_calls: "transfer L so cmd w = (r, w') \<Longrightarrow> api_calls w' = api_calls w"
  by (auto simp: transfer_def Let_def split: option.splits sum.splits if_splits)

lemma send_command_api_calls:
  "send_command L c w t ps = (r, c', w') \<Longrightarrow> api_calls w' = api_calls w"
  by (auto simp: send_command_def Let_def split: option.splits sum.splits if_splits prod.splits
      dest!: connect_api_calls transfer_api_calls)

lemma get_gimp_connection_api_calls:
  "get_gimp_connection w = (r, w') \<Longrightarrow> api_calls w' = api_calls w"
  by (auto simp: get_gimp_connection_def Let_def split: option.splits prod.splits
      dest!: connect_api_calls)

lemma call_api_try_api_calls:
  "call_api_try L w p a k = (r, w') \<Longrightarrow> api_calls w' = api_calls w"
  by (auto simp: call_api_try_def Let_def split: sum.splits prod.splits
      dest!: get_gimp_connection_api_calls send_command_api_calls)

lemma call_api_api_calls:
  "call_api L w p a k = (r, w') \<Longrightarrow> api_calls w' = api_calls w @ [(p, a, k)]"
  by (auto simp: call_api_def split: sum.splits prod.splits dest!: call_api_try_api_calls)

section \<open>Opening the connection\<close>

text \<open>
  Claim C3 says that a failed connect attempt leaves no handle stored. Here the plugin is
  not running: \<open>connect\<close> on a fresh \<open>GimpConnection\<close> raises \<open>ConnectionError\<close>, and
  \<open>self.sock\<close> holds the socket that could not be connected.
\<close>

theorem connect_refused_keeps_handle:
  "connect new_connection (start (\<lambda>k. refused) :: int world)
     = (Some ConnectionError, new_connection\<lparr>sock := Some (Socket 0 False)\<rparr>,
        (start (\<lambda>k. refused))\<lparr>created := 1, connect_attempts := 1\<rparr>)"
  by (simp add: connect_def new_connection_def start_def refused_def)

section \<open>One exchange per connection\<close>

text \<open>
  Claim C4 says that every exchange ends with the handle discarded, and that there are as
  many connect attempts as exchanges. With the plugin not running, the first
  \<open>send_command\<close> on a fresh \<open>GimpConnection\<close> raises \<open>ConnectionError\<close> and leaves the
  unconnected socket stored; the second finds a handle and does not connect: two exchanges,
  one connect attempt.
\<close>

theorem refused_exchange_keeps_handle:
  "(case send_command lib0 new_connection (start (\<lambda>k. refused)) (str ''call_api'') None of
      (r1, c1, w1) \<Rightarrow>
        (case send_command lib0 c1 w1 (str ''call_api'') None of
           (r2, c2, w2) \<Rightarrow>
             r1 = Inl ConnectionError \<and> sock c1 = Some (Socket 0 False)
             \<and> exchanges w2 = 2 \<and> connect_attempts w2 = 1 \<and> sock c2 = None))"
  by (simp add: send_command_def connect_def transfer_def new_connection_def start_def
      refused_def Let_def)

section \<open>Fail-fast chaining\<close>

text \<open>
  Claim C5: when the first call of \<open>get_image_info\<close> or \<open>apply_gaussian_blur\<close> (the one
  that resolves the image) returns an error string, the operation returns that string
  unchanged, in the state that call left, and the trace holds this one call more.
\<close>

theorem fail_fast_first_call:
  assumes "call_api L w (str ''Gimp.Image.get_by_id'') [JInt image_id] [] = (img, w1)"
    and "prefix (str ''Error: '') img"
  shows "get_image_info L w image_id = (Inr img, w1)
       \<and> apply_gaussian_blur L w image_id radius = (Inr img, w1)
       \<and> api_calls w1 = api_calls w @ [(str ''Gimp.Image.get_by_id'', [JInt image_id], [])]"
proof -
  have "prefix (str ''Error'') (str ''Error: '')" by (simp add: str_def)
  from this assms(2) have "prefix (str ''Error'') img" by (rule prefix_order.trans)
  then have c: "contains (str ''Error'') img" by (rule prefix_contains)
  show ?thesis
    using assms(1) c call_api_api_calls[OF assms(1)]
    by (simp add: get_image_info_def apply_gaussian_blur_def)
qed

theorem fail_fast_first_call_witness:
  "get_image_info lib0 (start (\<lambda>k. refused)) 99
     = (Inr (str ''Error: Could not connect to GIMP. Ensure the MCP Server plugin is running.''),
        snd (call_api lib0 (start (\<lambda>k. refused)) (str ''Gimp.Image.get_by_id'') [JInt 99] []))"
proof -
  have a: "call_api lib0 (start (\<lambda>k. refused)) (str ''Gimp.Image.get_by_id'') [JInt 99] []
         = (str ''Error: Could not connect to GIMP. Ensure the MCP Server plugin is running.'',
            snd (call_api lib0 (start (\<lambda>k. refused)) (str ''Gimp.Image.get_by_id'') [JInt 99] []))"
    by (simp add: call_api_def call_api_try_def get_gimp_connection_def connect_def start_def
        refused_def new_connection_def str_exc_def Let_def str_def)
  have b: "prefix (str ''Error: '')
      (str ''Error: Could not connect to GIMP. Ensure the MCP Server plugin is running.'')"
    by (simp add: str_def)
  from fail_fast_first_call[OF a b] show ?thesis by simp
qed

section \<open>A call that gets a reply\<close>

lemma result_text_succeeds: "succeeds r v \<Longrightarrow> result_text L r = Inr (dumps L v)"
  by (simp add: succeeds_def result_text_def)

lemma call_api_delivers:
  assumes "ready w" and "delivers L (peers w (created w)) v"
  shows "\<exists>w'. call_api L w p a k = (text_of L (result_text L v), w')
           \<and> ready w' \<and> peers w' = peers w \<and> created w' = Suc (created w)
           \<and> api_calls w' = api_calls w @ [(p, a, k)]
           \<and> exchanges w' = Suc (exchanges w)
           \<and> connect_attempts w' = Suc (connect_attempts w)
           \<and> received w' = received w @ [v]"
proof (cases "gimp_connection_global w")
  case None
  with assms show ?thesis
    by (auto simp: call_api_def call_api_try_def get_gimp_connection_def connect_def
        send_command_def transfer_def new_connection_def delivers_def ready_def text_of_def
        Let_def split: sum.splits option.splits)
next
  case (Some c)
  with assms show ?thesis
    by (auto simp: call_api_def call_api_try_def get_gimp_connection_def connect_def
        send_command_def transfer_def delivers_def ready_def text_of_def
        Let_def split: sum.splits option.splits)
qed

section \<open>Replies used in the runs\<close>

lemma utf8_dec_ascii: "list_all (\<lambda>c. c < 128) cs \<Longrightarrow> utf8_dec cs = Some cs"
  by (induction cs) auto

lemma utf8_decode_ascii:
  "list_all (\<lambda>c. (of_char c :: nat) < 128) b \<Longrightarrow> utf8_decode b = Some (str b)"
  by (simp add: utf8_decode_def str_def utf8_dec_ascii list_all_iff)

lemma delivers_answers:
  "length b \<le> 1024 \<Longrightarrow> utf8_decode b = Some t \<Longrightarrow> loads L t = Some v
     \<Longrightarrow> delivers L (answers b) v"
  by (simp add: delivers_def answers_def)

lemmas parse_simps = loads_def str_def skip_ws_def is_ws_def cons_res_def match_number_def
  match_int_def match_frac_def match_exp_def is_digit_def int_of_text_def nat_of_digits_def

lemma loads_id1: \<open>loads L (str ''{"id": 1}'') = Some (JObj [(str ''id'', JInt 1)])\<close>
  by (simp add: parse_simps)

lemma dumps_id1: \<open>dumps L (JObj [(str ''id'', JInt 1)]) = str ''{"id": 1}''\<close>
  by (simp add: str_def encode_str_def esc_char_def dec_int_def)

lemma no_error_id1: \<open>\<not> contains (str ''Error'') (str ''{"id": 1}'')\<close>
  by (simp add: str_def)

lemma reply_id1: \<open>loads L (str ''{"status": "success", "result": {"id": 1}}'')
    = Some (JObj [(str ''status'', JStr (str ''success'')),
                  (str ''result'', JObj [(str ''id'', JInt 1)])])\<close>
  by (simp add: parse_simps)

lemma reply_800: \<open>loads L (str ''{"status": "success", "result": 800}'')
    = Some (JObj [(str ''status'', JStr (str ''success'')), (str ''result'', JInt 800)])\<close>
  by (simp add: parse_simps)

lemma reply_600: \<open>loads L (str ''{"status": "success", "result": 600}'')
    = Some (JObj [(str ''status'', JStr (str ''success'')), (str ''result'', JInt 600)])\<close>
  by (simp add: parse_simps)

lemma reply_layers: \<open>loads L (str ''{"status": "success", "result": [0]}'')
    = Some (JObj [(str ''status'', JStr (str ''success'')), (str ''result'', JArr [JInt 0])])\<close>
  by (simp add: parse_simps)

section \<open>Describing an image\<close>

text \<open>
  Claim C6: when resolving the image succeeds with \<open>{"id": 1}\<close> and the width, height and
  layers calls succeed with 800, 600 and \<open>[0]\<close>, \<open>get_image_info(1)\<close> returns the JSON
  object whose three fields hold the strings the nested calls returned.
\<close>

theorem describe_image_scenario:
  assumes "ready w"
    and "delivers L (peers w (created w)) r0" and "succeeds r0 (JObj [(str ''id'', JInt 1)])"
    and "delivers L (peers w (created w + 1)) r1" and "succeeds r1 (JInt 800)"
    and "delivers L (peers w (created w + 2)) r2" and "succeeds r2 (JInt 600)"
    and "delivers L (peers w (created w + 3)) r3" and "succeeds r3 (JArr [JInt 0])"
  shows \<open>fst (get_image_info L w 1)
           = Inr (str ''{"width": "800", "height": "600", "layers": "[0]"}'')\<close>
proof -
  have t0: \<open>text_of L (result_text L r0) = str ''{"id": 1}''\<close>
    using result_text_succeeds[OF assms(3), of L]
    by (simp add: text_of_def dumps_id1 del: dumps.simps)
  have t1: "text_of L (result_text L r1) = str ''800''"
    using result_text_succeeds[OF assms(5), of L] by (simp add: text_of_def dec_int_def str_def)
  have t2: "text_of L (result_text L r2) = str ''600''"
    using result_text_succeeds[OF assms(7), of L] by (simp add: text_of_def dec_int_def str_def)
  have t3: "text_of L (result_text L r3) = str ''[0]''"
    using result_text_succeeds[OF assms(9), of L] by (simp add: text_of_def dec_int_def str_def)
  from call_api_delivers[OF assms(1,2), of "str ''Gimp.Image.get_by_id''" "[JInt 1]" "[]"]
  obtain w1 where c1: \<open>call_api L w (str ''Gimp.Image.get_by_id'') [JInt 1] []
        = (str ''{"id": 1}'', w1)\<close>
    and s1: "ready w1" "peers w1 = peers w" "created w1 = Suc (created w)"
    unfolding t0 by blast
  have d2: "delivers L (peers w1 (created w1)) r1" using assms(4) s1 by simp
  from call_api_delivers[OF s1(1) d2, of "str ''Gimp.Image.get_width''" "[JInt 1]" "[]"]
  obtain w2 where c2: "call_api L w1 (str ''Gimp.Image.get_width'') [JInt 1] []
        = (str ''800'', w2)"
    and s2: "ready w2" "peers w2 = peers w1" "created w2 = Suc (created w1)"
    unfolding t1 by blast
  have d3: "delivers L (peers w2 (created w2)) r2" using assms(6) s1 s2 by simp
  from call_api_delivers[OF s2(1) d3, of "str ''Gimp.Image.get_height''" "[JInt 1]" "[]"]
  obtain w3 where c3: "call_api L w2 (str ''Gimp.Image.get_height'') [JInt 1] []
        = (str ''600'', w3)"
    and s3: "ready w3" "peers w3 = peers w2" "created w3 = Suc (created w2)"
    unfolding t2 by blast
  have d4: "delivers L (peers w3 (created w3)) r3"
    using assms(8) s1 s2 s3 by (simp add: numeral_3_eq_3)
  from call_api_delivers[OF s3(1) d4, of "str ''Gimp.Image.get_layers''" "[JInt 1]" "[]"]
  obtain w4 where c4: "call_api L w3 (str ''Gimp.Image.get_layers'') [JInt 1] []
        = (str ''[0]'', w4)"
    unfolding t3 by blast
  have e: \<open>dumps L (JObj [(str ''width'', JStr (str ''800'')), (str ''height'', JStr (str ''600'')),
                        (str ''layers'', JStr (str ''[0]''))])
           = str ''{"width": "800", "height": "600", "layers": "[0]"}''\<close>
    by (simp add: str_def encode_str_def esc_char_def)
  show ?thesis
    using c1 c2 c3 c4 no_error_id1 loads_id1[of L] e
    by (simp add: get_image_info_def)
qed

end
